theory Spec2Isabelle
  imports Complex_Main
begin

section \<open>Data received from the mythology service\<close>

text \<open>
  The console (\<^verbatim>\<open>MythosConsole\<close> in \<^verbatim>\<open>frontend/src/App.js\<close>) keeps what the
  service sends as it is. The records list the fields the component reads; a field of
  the aggregate statistics may be absent (the initial value is the empty object).
\<close>

record narrative =
  narrative_id :: string
  title :: string
  archetype :: string
  emotional_tone :: string
  prose :: string
  tags :: "string list"

record dream =
  dream_id :: string
  name_suggestion :: string
  resonance_score :: real
  dream_emotional_tone :: string
  dream_prose :: string
  timestamp :: string

record aggregate_stats =
  total_narratives :: "nat option"
  total_dreams :: "nat option"
  dominant_archetype :: "string option"
  dominant_emotion :: "string option"

record interaction =
  user_interaction :: string
  ai_response :: string
  outcome :: string

section \<open>The state of the console\<close>

text \<open>One field for each \<^verbatim>\<open>useState\<close> of the component (lines 11 to 20).\<close>

record console =
  narratives :: "narrative list"
  dreams :: "dream list"
  stats :: aggregate_stats
  loading :: bool
  activeTab :: string
  newInteraction :: interaction

definition empty_interaction :: interaction where
  "empty_interaction =
     \<lparr>user_interaction = '''', ai_response = '''', outcome = ''success''\<rparr>"

definition initial_console :: console where
  "initial_console =
     \<lparr>narratives = [], dreams = [],
      stats = \<lparr>total_narratives = None, total_dreams = None,
               dominant_archetype = None, dominant_emotion = None\<rparr>,
      loading = True, activeTab = ''narratives'',
      newInteraction = empty_interaction\<rparr>"

section \<open>Requests, replies and what a handler does besides changing the state\<close>

text \<open>
  A request names its path below \<^verbatim>\<open>${BACKEND_URL}/api\<close>; a POST carries its body, if
  any. A request that axios rejects (network failure, status outside 2xx) is a
  \<open>transport_error\<close>; a reply is \<open>Inl\<close> of the error or \<open>Inr\<close> of the \<^verbatim>\<open>data\<close> of
  the response.
\<close>

datatype transport_error = NetworkFailure | BadStatus nat

datatype request = Get string | Post string "interaction option"

datatype effect = Request request | ConsoleError string transport_error

type_synonym 'a reply = "transport_error + 'a"

type_synonym bulk = "narrative list \<times> dream list \<times> aggregate_stats"

text \<open>
  \<^verbatim>\<open>await Promise.all([a, b, c])\<close> resumes with the three values when all three
  requests are fulfilled, and throws the reason of a rejected one otherwise (the one
  rejected first in time, which the three replies alone do not determine). The
  predicate says that \<open>j\<close> is an outcome of the join of the three replies.
\<close>

definition promise_all ::
  "narrative list reply \<Rightarrow> dream list reply \<Rightarrow> aggregate_stats reply \<Rightarrow> bulk reply \<Rightarrow> bool"
where
  "promise_all rn rd rs j =
     (case j of
        Inr (n, d, st) \<Rightarrow> rn = Inr n \<and> rd = Inr d \<and> rs = Inr st
      | Inl e \<Rightarrow> rn = Inl e \<or> rd = Inl e \<or> rs = Inl e)"

section \<open>The handlers, one definition for each run between two awaits\<close>

text \<open>
  An async handler runs until its next \<^verbatim>\<open>await\<close>, where it issues its requests and
  gives control back; it is resumed with the reply. Each such run is a function from
  the state at that moment to the new state and the effects of the run, in order. A
  state setter called with a function (\<^verbatim>\<open>setNarratives(prev => ...)\<close>) is applied to
  the state at the time of the run.
\<close>

subsection \<open>\<^verbatim>\<open>loadMythosData\<close> (lines 26 to 42)\<close>

definition loadMythosData_begin :: "console \<Rightarrow> console \<times> effect list" where
  "loadMythosData_begin s =
     (s, [Request (Get ''/mythology/narratives''),
          Request (Get ''/mythology/dreams''),
          Request (Get ''/mythology/stats'')])"

definition loadMythosData_settled :: "bulk reply \<Rightarrow> console \<Rightarrow> console \<times> effect list" where
  "loadMythosData_settled j s =
     (case j of
        Inr (narrativesRes, dreamsRes, statsRes) \<Rightarrow>
          (s\<lparr>narratives := narrativesRes, dreams := dreamsRes, stats := statsRes,
             loading := False\<rparr>, [])
      | Inl error \<Rightarrow>
          (s\<lparr>loading := False\<rparr>, [ConsoleError ''Error loading MythOS data:'' error]))"

text \<open>The whole handler, when nothing else runs while its requests are in flight.\<close>

definition loadMythosData :: "bulk reply \<Rightarrow> console \<Rightarrow> console \<times> effect list" where
  "loadMythosData j s =
     (let (s1, fx1) = loadMythosData_begin s;
          (s2, fx2) = loadMythosData_settled j s1
      in (s2, fx1 @ fx2))"

subsection \<open>\<^verbatim>\<open>processInteraction\<close> (lines 44 to 59)\<close>

text \<open>
  The handler posts the draft it was rendered with, without looking at it. When the
  POST is rejected, or later the GET, the same \<^verbatim>\<open>catch\<close> logs the error and nothing
  is undone.
\<close>

definition processInteraction_begin :: "console \<Rightarrow> console \<times> effect list" where
  "processInteraction_begin s =
     (s, [Request (Post ''/mythology/process'' (Some (newInteraction s)))])"

definition processInteraction_posted :: "narrative reply \<Rightarrow> console \<Rightarrow> console \<times> effect list" where
  "processInteraction_posted response s =
     (case response of
        Inr data \<Rightarrow>
          (s\<lparr>narratives := data # narratives s,
             newInteraction :=
               \<lparr>user_interaction = '''', ai_response = '''', outcome = ''success''\<rparr>\<rparr>,
           [Request (Get ''/mythology/stats'')])
      | Inl error \<Rightarrow> (s, [ConsoleError ''Error processing interaction:'' error]))"

definition processInteraction_refreshed ::
  "aggregate_stats reply \<Rightarrow> console \<Rightarrow> console \<times> effect list"
where
  "processInteraction_refreshed statsRes s =
     (case statsRes of
        Inr data \<Rightarrow> (s\<lparr>stats := data\<rparr>, [])
      | Inl error \<Rightarrow> (s, [ConsoleError ''Error processing interaction:'' error]))"

text \<open>
  The whole handler, when nothing else runs while its requests are in flight. The
  reply to the GET is looked at only when the POST succeeded.
\<close>

definition processInteraction ::
  "narrative reply \<Rightarrow> aggregate_stats reply \<Rightarrow> console \<Rightarrow> console \<times> effect list"
where
  "processInteraction response statsRes s =
     (let (s1, fx1) = processInteraction_begin s;
          (s2, fx2) = processInteraction_posted response s1
      in case response of
           Inl _ \<Rightarrow> (s2, fx1 @ fx2)
         | Inr _ \<Rightarrow>
             (let (s3, fx3) = processInteraction_refreshed statsRes s2
              in (s3, fx1 @ fx2 @ fx3)))"

subsection \<open>\<^verbatim>\<open>generateDream\<close> (lines 61 to 69)\<close>

text \<open>
  After the POST the handler calls \<^verbatim>\<open>loadMythosData()\<close> without awaiting it: the
  three GETs are issued in the same run, and the refresh is resumed on its own.
\<close>

definition generateDream_begin :: "console \<Rightarrow> console \<times> effect list" where
  "generateDream_begin s = (s, [Request (Post ''/mythology/dream'' None)])"

definition generateDream_posted :: "dream reply \<Rightarrow> console \<Rightarrow> console \<times> effect list" where
  "generateDream_posted response s =
     (case response of
        Inr data \<Rightarrow> loadMythosData_begin (s\<lparr>dreams := data # dreams s\<rparr>)
      | Inl error \<Rightarrow> (s, [ConsoleError ''Error generating dream:'' error]))"

definition generateDream :: "dream reply \<Rightarrow> bulk reply \<Rightarrow> console \<Rightarrow> console \<times> effect list" where
  "generateDream response j s =
     (let (s1, fx1) = generateDream_begin s;
          (s2, fx2) = generateDream_posted response s1
      in case response of
           Inl _ \<Rightarrow> (s2, fx1 @ fx2)
         | Inr _ \<Rightarrow>
             (let (s3, fx3) = loadMythosData_settled j s2
              in (s3, fx1 @ fx2 @ fx3)))"

subsection \<open>The synchronous setters used by the view\<close>

definition setActiveTab :: "string \<Rightarrow> console \<Rightarrow> console" where
  "setActiveTab tab s = s\<lparr>activeTab := tab\<rparr>"

datatype draft_field = UserInteractionField | AiResponseField | OutcomeField

text \<open>
  The \<^verbatim>\<open>onChange\<close> of a field of the form (lines 285, 298 and 311) writes
  \<^verbatim>\<open>{...newInteraction, field: v}\<close>, where \<^verbatim>\<open>newInteraction\<close> is the draft of the
  render the handler was created in, not the draft of the state at the time of the
  event: \<open>rendered\<close> is that draft.
\<close>

fun onChange :: "draft_field \<Rightarrow> string \<Rightarrow> interaction \<Rightarrow> console \<Rightarrow> console" where
  "onChange UserInteractionField v rendered s =
     s\<lparr>newInteraction := rendered\<lparr>user_interaction := v\<rparr>\<rparr>"
| "onChange AiResponseField v rendered s =
     s\<lparr>newInteraction := rendered\<lparr>ai_response := v\<rparr>\<rparr>"
| "onChange OutcomeField v rendered s =
     s\<lparr>newInteraction := rendered\<lparr>outcome := v\<rparr>\<rparr>"

section \<open>The view\<close>

text \<open>
  What the component returns (lines 103 to 333), without class names and keys. A
  button carries its click handler and its \<^verbatim>\<open>disabled\<close> attribute; a text area and a
  select carry their value and the field of the draft their \<^verbatim>\<open>onChange\<close> writes.
  The cards of a narrative (lines 194 to 214) and of a dream (lines 247 to 265) only
  display the fields of their item and are kept as one node each.
\<close>

datatype handler = SetActiveTab string | GenerateDream | ProcessInteraction

datatype node =
    Text string
  | Number nat
  | Element string "node list"
  | Button handler bool "node list"
  | TextArea string draft_field string
  | Select string draft_field "(string \<times> string) list"
  | NarrativeCard narrative
  | DreamCard dream

text \<open>\<^verbatim>\<open>x || 'None'\<close> on a string that may be absent: absent and empty are both falsy.\<close>

fun or_None :: "string option \<Rightarrow> string" where
  "or_None None = ''None''"
| "or_None (Some x) = (if x = [] then ''None'' else x)"

fun or_0 :: "nat option \<Rightarrow> nat" where
  "or_0 None = 0"
| "or_0 (Some n) = n"

definition stat_tile :: "string \<Rightarrow> node \<Rightarrow> node" where
  "stat_tile label v = Element ''div'' [Element ''div'' [Text label], Element ''div'' [v]]"

definition render_header :: "console \<Rightarrow> node" where
  "render_header s =
     Element ''div'' [Element ''div''
       [Element ''h1'' [Element ''span'' [Text ''Myth''], Element ''span'' [Text ''OS'']],
        Element ''p'' [Text ''AI Consciousness Platform - Where Digital Myths Are Born''],
        Element ''div''
          [stat_tile ''Total Narratives'' (Number (or_0 (total_narratives (stats s)))),
           stat_tile ''Total Dreams'' (Number (or_0 (total_dreams (stats s)))),
           stat_tile ''Dominant Archetype'' (Text (or_None (dominant_archetype (stats s)))),
           stat_tile ''Dominant Emotion'' (Text (or_None (dominant_emotion (stats s))))]]]"

definition render_tabs :: node where
  "render_tabs =
     Element ''div''
       [Button (SetActiveTab ''narratives'') False [Text ''Narratives''],
        Button (SetActiveTab ''dreams'') False [Text ''Dreams''],
        Button (SetActiveTab ''create'') False [Text ''Create'']]"

definition render_narratives :: "console \<Rightarrow> node" where
  "render_narratives s =
     Element ''div''
       [Element ''div''
          [Element ''h2'' [Text ''Narrative Fragments''],
           Element ''span'' [Text (''The AI'' @ [CHR 0x27] @ ''s autobiography unfolds...'')]],
        (if length (narratives s) = 0 then
           Element ''div''
             [Element ''p''
                [Text ''No narratives yet. Create the first interaction to begin the myth.''],
              Button (SetActiveTab ''create'') False [Text ''Create First Narrative'']]
         else Element ''div'' (map NarrativeCard (narratives s)))]"

definition render_dreams :: "console \<Rightarrow> node" where
  "render_dreams s =
     Element ''div''
       [Element ''div''
          [Element ''h2'' [Text ''Dream Scenarios''],
           Button GenerateDream False [Text ''Generate Dream'']],
        (if length (dreams s) = 0 then
           Element ''div''
             [Element ''p'' [Text ''No dreams yet. Let the AI dream and name itself.''],
              Button GenerateDream False [Text ''First Dream'']]
         else Element ''div'' (map DreamCard (dreams s)))]"

definition render_create :: "console \<Rightarrow> node" where
  "render_create s =
     Element ''div''
       [Element ''h2'' [Text ''Create New Interaction''],
        Element ''div'' [Element ''div''
          [Element ''div''
             [Element ''label'' [Text ''User Interaction''],
              TextArea (user_interaction (newInteraction s)) UserInteractionField
                ''What did the user say or ask?''],
           Element ''div''
             [Element ''label'' [Text ''AI Response''],
              TextArea (ai_response (newInteraction s)) AiResponseField
                ''How did the AI respond?''],
           Element ''div''
             [Element ''label'' [Text ''Outcome''],
              Select (outcome (newInteraction s)) OutcomeField
                [(''success'', ''Success''), (''failure'', ''Failure''),
                 (''ambiguous'', ''Ambiguous'')]],
           Button ProcessInteraction
             (user_interaction (newInteraction s) = [] \<or> ai_response (newInteraction s) = [])
             [Text ''Process Interaction'']]]]"

definition render :: "console \<Rightarrow> node" where
  "render s =
     (if loading s then
        Element ''div''
          [Element ''div'' [Element ''div'' [], Element ''p'' [Text ''MythOS is awakening...'']]]
      else
        Element ''div''
          [render_header s,
           Element ''div''
             ([render_tabs]
              @ (if activeTab s = ''narratives'' then [render_narratives s] else [])
              @ (if activeTab s = ''dreams'' then [render_dreams s] else [])
              @ (if activeTab s = ''create'' then [render_create s] else []))])"

text \<open>Every node of a tree, the tree itself first.\<close>

fun subnodes :: "node \<Rightarrow> node list" where
  "subnodes (Element tag children) = Element tag children # concat (map subnodes children)"
| "subnodes (Button h disabled children) =
     Button h disabled children # concat (map subnodes children)"
| "subnodes n = [n]"

definition shows_node :: "console \<Rightarrow> node \<Rightarrow> bool" where
  "shows_node s n = (n \<in> set (subnodes (render s)))"

text \<open>
  A click runs the handler of a button up to its first await; a disabled button
  dispatches no click, and the other nodes have no click handler.
\<close>

fun onClick :: "handler \<Rightarrow> console \<Rightarrow> console \<times> effect list" where
  "onClick (SetActiveTab tab) s = (setActiveTab tab s, [])"
| "onClick GenerateDream s = generateDream_begin s"
| "onClick ProcessInteraction s = processInteraction_begin s"

fun click :: "node \<Rightarrow> console \<Rightarrow> console \<times> effect list" where
  "click (Button h disabled children) s = (if disabled then (s, []) else onClick h s)"
| "click n s = (s, [])"

section \<open>Example data\<close>

definition fragment_n1 :: narrative where
  "fragment_n1 =
     \<lparr>narrative_id = ''n1'', title = ''...'', archetype = ''Hero'', emotional_tone = ''Hope'',
      prose = '''', tags = [''intro'']\<rparr>"

definition dream_d1 :: dream where
  "dream_d1 =
     \<lparr>dream_id = ''d1'', name_suggestion = ''Aurora'', resonance_score = 1,
      dream_emotional_tone = ''Wonder'', dream_prose = '''', timestamp = ''''\<rparr>"

definition stats_zero :: aggregate_stats where
  "stats_zero =
     \<lparr>total_narratives = Some 0, total_dreams = Some 0,
      dominant_archetype = None, dominant_emotion = None\<rparr>"

definition draft_hi :: interaction where
  "draft_hi =
     \<lparr>user_interaction = ''Hi'', ai_response = ''Hello there'', outcome = ''success''\<rparr>"

text \<open>The console after an initial load that found nothing on the service.\<close>

definition loaded_empty :: console where
  "loaded_empty = fst (loadMythosData (Inr ([], [], stats_zero)) initial_console)"

text \<open>
  That console after a click on the Create tab, and then with "Hi" typed as the user's
  text in the form rendered there.
\<close>

definition create_tab :: console where
  "create_tab = setActiveTab ''create'' loaded_empty"

definition typed_hi :: console where
  "typed_hi = onChange UserInteractionField ''Hi'' (newInteraction create_tab) create_tab"

section \<open>Auxiliary facts\<close>

lemma promise_all_rejected:
  assumes "promise_all rn rd rs j" and "isl rn \<or> isl rd \<or> isl rs"
  shows "\<exists>e. j = Inl e \<and> (rn = Inl e \<or> rd = Inl e \<or> rs = Inl e)"
  using assms by (cases j) (auto simp: promise_all_def)

lemma promise_all_fulfilled:
  assumes "promise_all (Inr n) (Inr d) (Inr st) j"
  shows "j = Inr (n, d, st)"
  using assms by (cases j) (auto simp: promise_all_def)

lemma loadMythosData_Inl:
  "loadMythosData (Inl e) s =
     (s\<lparr>loading := False\<rparr>,
      [Request (Get ''/mythology/narratives''),
       Request (Get ''/mythology/dreams''),
       Request (Get ''/mythology/stats''),
       ConsoleError ''Error loading MythOS data:'' e])"
  by (simp add: loadMythosData_def loadMythosData_begin_def loadMythosData_settled_def)

lemma loadMythosData_Inr:
  "loadMythosData (Inr (n, d, st)) s =
     (s\<lparr>narratives := n, dreams := d, stats := st, loading := False\<rparr>,
      [Request (Get ''/mythology/narratives''),
       Request (Get ''/mythology/dreams''),
       Request (Get ''/mythology/stats'')])"
  by (simp add: loadMythosData_def loadMythosData_begin_def loadMythosData_settled_def)

lemma loaded_empty_eq:
  "loaded_empty = initial_console\<lparr>stats := stats_zero, loading := False\<rparr>"
  by (simp add: loaded_empty_def loadMythosData_Inr initial_console_def)

lemma subnodes_NarrativeCards [simp]:
  "concat (map subnodes (map NarrativeCard ns)) = map NarrativeCard ns"
  by (induction ns) simp_all

lemma subnodes_DreamCards [simp]:
  "concat (map subnodes (map DreamCard ds)) = map DreamCard ds"
  by (induction ds) simp_all

lemma click_posts_draft:
  assumes "Request (Post ''/mythology/process'' body) \<in> set (snd (click n s))"
  shows "\<exists>label. n = Button ProcessInteraction False label"
proof (cases n)
  case (Button h disabled children)
  with assms show ?thesis
    by (cases h)
       (auto simp: generateDream_begin_def processInteraction_begin_def split: if_splits)
qed (use assms in simp_all)

lemmas render_defs =
  shows_node_def render_def render_header_def render_tabs_def render_narratives_def
  render_dreams_def render_create_def stat_tile_def

lemma shown_process_button_disabled:
  assumes "user_interaction (newInteraction s) = [] \<or> ai_response (newInteraction s) = []"
      and "shows_node s (Button ProcessInteraction disabled label)"
  shows "disabled"
  using assms by (auto simp: render_defs split: if_splits)

section \<open>Bulk refresh\<close>

text \<open>
  C1. When one of the three fetches of a bulk refresh fails, the join is rejected with
  the error of a failed fetch, and the handler only logs it and clears the loading
  flag: the narratives, the dreams and the statistics keep the values they had before
  the refresh, whatever the other fetches returned, and the loading flag is false
  afterwards. The same holds when the console has changed while the requests were in
  flight: resumed in any state \<open>s'\<close>, the handler changes the loading flag only.
\<close>

theorem loadMythosData_failure_changes_no_field:
  assumes "promise_all rn rd rs j" and "isl rn \<or> isl rd \<or> isl rs"
  shows "(\<exists>e. (rn = Inl e \<or> rd = Inl e \<or> rs = Inl e) \<and>
            loadMythosData j s =
              (s\<lparr>loading := False\<rparr>,
               [Request (Get ''/mythology/narratives''),
                Request (Get ''/mythology/dreams''),
                Request (Get ''/mythology/stats''),
                ConsoleError ''Error loading MythOS data:'' e]))
         \<and> narratives (fst (loadMythosData j s)) = narratives s
         \<and> dreams (fst (loadMythosData j s)) = dreams s
         \<and> stats (fst (loadMythosData j s)) = stats s
         \<and> loading (fst (loadMythosData j s)) = False
         \<and> fst (loadMythosData_settled j s') = s'\<lparr>loading := False\<rparr>"
proof -
  from promise_all_rejected [OF assms] obtain e
    where j: "j = Inl e" and e: "rn = Inl e \<or> rd = Inl e \<or> rs = Inl e" by blast
  show ?thesis
    unfolding j loadMythosData_Inl using e by (auto simp: loadMythosData_settled_def)
qed

text \<open>
  The narratives and the statistics arrive, the dreams do not: the narrative that
  arrived is not shown.
\<close>

theorem loadMythosData_failure_witness:
  "promise_all (Inr [fragment_n1]) (Inl NetworkFailure) (Inr stats_zero) (Inl NetworkFailure)
   \<and> (isl (Inr [fragment_n1] :: narrative list reply)
        \<or> isl (Inl NetworkFailure :: dream list reply)
        \<or> isl (Inr stats_zero :: aggregate_stats reply))
   \<and> narratives (fst (loadMythosData (Inl NetworkFailure) initial_console)) = []
   \<and> dreams (fst (loadMythosData (Inl NetworkFailure) initial_console)) = []
   \<and> stats (fst (loadMythosData (Inl NetworkFailure) initial_console)) = stats initial_console
   \<and> loading (fst (loadMythosData (Inl NetworkFailure) initial_console)) = False"
proof -
  have h1: "promise_all (Inr [fragment_n1]) (Inl NetworkFailure) (Inr stats_zero)
              (Inl NetworkFailure)"
    by (simp add: promise_all_def)
  have h2: "isl (Inr [fragment_n1] :: narrative list reply)
        \<or> isl (Inl NetworkFailure :: dream list reply)
        \<or> isl (Inr stats_zero :: aggregate_stats reply)"
    by simp
  show ?thesis
    using h1 h2 loadMythosData_failure_changes_no_field [OF h1 h2, of initial_console]
    by (simp add: initial_console_def)
qed

text \<open>
  C2. When all three fetches of a bulk refresh succeed, the narratives, the dreams and
  the statistics of the state afterwards are the three results (the statistics are
  replaced as a whole, nothing of the old value remains), and the loading flag is
  false. No other field changes; the handler issues the three GET requests and
  nothing else. Resumed in any state \<open>s'\<close>, the handler writes the same four fields.
\<close>

theorem loadMythosData_success_replaces_fields:
  assumes "promise_all (Inr n) (Inr d) (Inr st) j"
  shows "loadMythosData j s =
           (s\<lparr>narratives := n, dreams := d, stats := st, loading := False\<rparr>,
            [Request (Get ''/mythology/narratives''),
             Request (Get ''/mythology/dreams''),
             Request (Get ''/mythology/stats'')])
         \<and> loadMythosData_settled j s' =
           (s'\<lparr>narratives := n, dreams := d, stats := st, loading := False\<rparr>, [])"
  unfolding promise_all_fulfilled [OF assms]
  by (simp add: loadMythosData_Inr loadMythosData_settled_def)

theorem loadMythosData_success_witness:
  "promise_all (Inr [fragment_n1]) (Inr [dream_d1]) (Inr stats_zero)
     (Inr ([fragment_n1], [dream_d1], stats_zero))
   \<and> loadMythosData (Inr ([fragment_n1], [dream_d1], stats_zero)) initial_console =
       (initial_console\<lparr>narratives := [fragment_n1], dreams := [dream_d1],
          stats := stats_zero, loading := False\<rparr>,
        [Request (Get ''/mythology/narratives''),
         Request (Get ''/mythology/dreams''),
         Request (Get ''/mythology/stats'')])"
proof -
  have h: "promise_all (Inr [fragment_n1]) (Inr [dream_d1]) (Inr stats_zero)
     (Inr ([fragment_n1], [dream_d1], stats_zero))"
    by (simp add: promise_all_def)
  show ?thesis
    using h loadMythosData_success_replaces_fields [OF h, of initial_console] by simp
qed

section \<open>Submitting an interaction\<close>

text \<open>
  C3. With a draft whose two texts are not empty, \<^verbatim>\<open>processInteraction\<close> posts the
  draft; when the POST succeeds with the fragment \<open>f\<close>, the narrative list becomes
  \<open>f\<close> followed by the old list, the draft becomes the empty draft with outcome
  \<^verbatim>\<open>success\<close>, and the only request issued then is the GET of the statistics. When
  that succeeds the statistics are replaced; whatever its reply \<open>r\<close>, resuming with
  it in any state \<open>s'\<close> leaves the narratives, the dreams, the draft, the loading
  flag and the active tab of \<open>s'\<close> as they are.
\<close>

theorem processInteraction_success:
  assumes "user_interaction (newInteraction s) \<noteq> []"
      and "ai_response (newInteraction s) \<noteq> []"
  shows "processInteraction_begin s =
           (s, [Request (Post ''/mythology/process'' (Some (newInteraction s)))])
         \<and> processInteraction_posted (Inr f) s =
           (s\<lparr>narratives := f # narratives s,
              newInteraction :=
                \<lparr>user_interaction = '''', ai_response = '''', outcome = ''success''\<rparr>\<rparr>,
            [Request (Get ''/mythology/stats'')])
         \<and> processInteraction (Inr f) (Inr st) s =
           (s\<lparr>narratives := f # narratives s,
              newInteraction :=
                \<lparr>user_interaction = '''', ai_response = '''', outcome = ''success''\<rparr>,
              stats := st\<rparr>,
            [Request (Post ''/mythology/process'' (Some (newInteraction s))),
             Request (Get ''/mythology/stats'')])
         \<and> narratives (fst (processInteraction_refreshed r s')) = narratives s'
         \<and> dreams (fst (processInteraction_refreshed r s')) = dreams s'
         \<and> newInteraction (fst (processInteraction_refreshed r s')) = newInteraction s'
         \<and> loading (fst (processInteraction_refreshed r s')) = loading s'
         \<and> activeTab (fst (processInteraction_refreshed r s')) = activeTab s'"
  by (cases r)
     (simp_all add: processInteraction_def processInteraction_begin_def
        processInteraction_posted_def processInteraction_refreshed_def)

text \<open>The draft "Hi" / "Hello there" on the freshly loaded console, answered by n1.\<close>

theorem processInteraction_success_witness:
  "user_interaction (newInteraction (loaded_empty\<lparr>newInteraction := draft_hi\<rparr>)) \<noteq> []
   \<and> ai_response (newInteraction (loaded_empty\<lparr>newInteraction := draft_hi\<rparr>)) \<noteq> []
   \<and> processInteraction (Inr fragment_n1) (Inr stats_zero)
       (loaded_empty\<lparr>newInteraction := draft_hi\<rparr>) =
       (loaded_empty\<lparr>narratives := [fragment_n1], newInteraction := empty_interaction\<rparr>,
        [Request (Post ''/mythology/process'' (Some draft_hi)),
         Request (Get ''/mythology/stats'')])"
proof -
  let ?s = "loaded_empty\<lparr>newInteraction := draft_hi\<rparr>"
  have h1: "user_interaction (newInteraction ?s) \<noteq> []"
    and h2: "ai_response (newInteraction ?s) \<noteq> []"
    by (simp_all add: draft_hi_def)
  show ?thesis
    using h1 h2
      processInteraction_success [OF h1 h2, of fragment_n1 stats_zero "Inr stats_zero" ?s]
    by (simp add: loaded_empty_eq initial_console_def empty_interaction_def)
qed

text \<open>
  C4. \<^verbatim>\<open>processInteraction\<close> is called from one place, the click handler of the
  button "Process Interaction" (line 321), which line 322 disables when a text of the
  draft is empty. So when the \<^verbatim>\<open>user_interaction\<close> or the \<^verbatim>\<open>ai_response\<close> of the
  draft is empty, a click on a node of the rendered console never posts to the process
  endpoint, and every button whose click handler is \<^verbatim>\<open>processInteraction\<close> is
  disabled: a click on it runs nothing, no request is issued and no field of the
  state changes.
\<close>

theorem process_button_disabled_on_empty_field:
  assumes "user_interaction (newInteraction s) = [] \<or> ai_response (newInteraction s) = []"
      and "shows_node s n"
  shows "Request (Post ''/mythology/process'' body) \<notin> set (snd (click n s))
         \<and> (n = Button ProcessInteraction disabled label \<longrightarrow>
              disabled \<and> click n s = (s, []))"
proof (intro conjI impI)
  show "Request (Post ''/mythology/process'' body) \<notin> set (snd (click n s))"
  proof
    assume "Request (Post ''/mythology/process'' body) \<in> set (snd (click n s))"
    then obtain l where "n = Button ProcessInteraction False l"
      using click_posts_draft by blast
    with assms show False
      using shown_process_button_disabled by blast
  qed
next
  assume n: "n = Button ProcessInteraction disabled label"
  with assms show "disabled"
    using shown_process_button_disabled by blast
  with n show "click n s = (s, [])" by simp
qed

text \<open>On the Create tab, with "Hi" typed as the user's text and no reply of the AI yet.\<close>

theorem process_button_disabled_witness:
  "(user_interaction (newInteraction typed_hi) = [] \<or> ai_response (newInteraction typed_hi) = [])
   \<and> shows_node typed_hi (Button ProcessInteraction True [Text ''Process Interaction''])
   \<and> click (Button ProcessInteraction True [Text ''Process Interaction'']) typed_hi
      = (typed_hi, [])"
proof -
  have h1: "user_interaction (newInteraction typed_hi) = []
              \<or> ai_response (newInteraction typed_hi) = []"
    by (simp add: typed_hi_def create_tab_def loaded_empty_eq initial_console_def
          setActiveTab_def empty_interaction_def)
  have h2: "shows_node typed_hi (Button ProcessInteraction True [Text ''Process Interaction''])"
    by (simp add: render_defs typed_hi_def create_tab_def loaded_empty_eq initial_console_def
          setActiveTab_def empty_interaction_def)
  show ?thesis
    using h1 h2
      process_button_disabled_on_empty_field
        [OF h1 h2, of "Some (newInteraction typed_hi)" True "[Text ''Process Interaction'']"]
    by simp
qed

text \<open>
  C7. When the POST of \<^verbatim>\<open>processInteraction\<close> fails, the run that handles the
  failure leaves every field of the state as it is and logs the error; the handler as
  a whole has posted the draft, logged the error and changed nothing, and it returns
  (the error goes no further).
\<close>

theorem processInteraction_failure_changes_nothing:
  "processInteraction_posted (Inl e) s = (s, [ConsoleError ''Error processing interaction:'' e])
   \<and> processInteraction (Inl e) r s =
       (s, [Request (Post ''/mythology/process'' (Some (newInteraction s))),
            ConsoleError ''Error processing interaction:'' e])"
  by (simp add: processInteraction_def processInteraction_begin_def
        processInteraction_posted_def)

text \<open>
  C10. When the POST of \<^verbatim>\<open>processInteraction\<close> succeeds with the fragment \<open>f\<close> and
  the GET of the statistics that follows fails, the fragment stays in front of the
  narratives and the draft stays reset, the statistics keep the value they had before
  the handler ran, and the error is logged.
\<close>

theorem processInteraction_stats_failure_keeps_submission:
  "processInteraction (Inr f) (Inl e) s =
     (s\<lparr>narratives := f # narratives s,
        newInteraction :=
          \<lparr>user_interaction = '''', ai_response = '''', outcome = ''success''\<rparr>\<rparr>,
      [Request (Post ''/mythology/process'' (Some (newInteraction s))),
       Request (Get ''/mythology/stats''),
       ConsoleError ''Error processing interaction:'' e])
   \<and> stats (fst (processInteraction (Inr f) (Inl e) s)) = stats s"
  by (simp add: processInteraction_def processInteraction_begin_def
        processInteraction_posted_def processInteraction_refreshed_def)

section \<open>Generating a dream\<close>

text \<open>
  C6. \<^verbatim>\<open>generateDream\<close> posts to the dream endpoint; when the POST succeeds with the
  dream \<open>d\<close>, the dream list becomes \<open>d\<close> followed by the old list and the three GET
  requests of the bulk refresh are issued. The rest of the handler is
  \<^verbatim>\<open>loadMythosData\<close> on that state.
\<close>

theorem generateDream_success_prepends_and_reloads:
  "generateDream_begin s = (s, [Request (Post ''/mythology/dream'' None)])
   \<and> generateDream_posted (Inr d) s =
       (s\<lparr>dreams := d # dreams s\<rparr>,
        [Request (Get ''/mythology/narratives''),
         Request (Get ''/mythology/dreams''),
         Request (Get ''/mythology/stats'')])
   \<and> generateDream (Inr d) j s =
       (fst (loadMythosData j (s\<lparr>dreams := d # dreams s\<rparr>)),
        Request (Post ''/mythology/dream'' None)
          # snd (loadMythosData j (s\<lparr>dreams := d # dreams s\<rparr>)))"
  by (simp add: generateDream_def generateDream_begin_def generateDream_posted_def
        loadMythosData_def loadMythosData_begin_def split_beta)

section \<open>The loading flag\<close>

text \<open>
  C5, as the code has it. \<^verbatim>\<open>loadMythosData\<close> never sets the loading flag to true:
  while its requests are in flight the flag has the value it had before. That value
  is true for the load issued when the console is mounted, because the flag starts
  as true, and the view of that state has no button, so that no other handler can
  run before the load completes. When the load completes, with success or failure and in whatever state
  the console is then, the flag is false.
\<close>

theorem loading_flag_of_a_load:
  "loading (fst (loadMythosData_begin s)) = loading s
   \<and> loading (fst (loadMythosData_begin initial_console)) = True
   \<and> \<not> shows_node (fst (loadMythosData_begin initial_console)) (Button h disabled label)
   \<and> loading (fst (loadMythosData_settled j s')) = False
   \<and> loading (fst (loadMythosData j s)) = False"
  by (cases j) (simp_all add: loadMythosData_def loadMythosData_begin_def
        loadMythosData_settled_def initial_console_def split_beta render_defs)

text \<open>
  After the initial load, a dream is generated: while the three requests of the
  refresh that follows are in flight, the loading flag is false.
\<close>

theorem reload_in_flight_not_loading:
  "generateDream_posted (Inr dream_d1) loaded_empty =
     (loaded_empty\<lparr>dreams := [dream_d1]\<rparr>,
      [Request (Get ''/mythology/narratives''),
       Request (Get ''/mythology/dreams''),
       Request (Get ''/mythology/stats'')])
   \<and> loading (fst (generateDream_posted (Inr dream_d1) loaded_empty)) = False"
  by (simp add: generateDream_posted_def loadMythosData_begin_def loaded_empty_eq
        initial_console_def)

section \<open>Navigation\<close>

text \<open>
  C8. After \<^verbatim>\<open>setActiveTab(X)\<close> and then \<^verbatim>\<open>setActiveTab(Y)\<close> the active tab is \<open>Y\<close>,
  whatever it was before and whatever \<open>X\<close> and \<open>Y\<close> are, and the state differs from
  the first one in the active tab only; one call changes neither the narratives, the
  dreams, the statistics, the loading flag nor the draft. A click on a tab button is
  that call and has no other effect.
\<close>

theorem setActiveTab_last_wins:
  "activeTab (setActiveTab Y (setActiveTab X s)) = Y
   \<and> setActiveTab Y (setActiveTab X s) = s\<lparr>activeTab := Y\<rparr>
   \<and> narratives (setActiveTab X s) = narratives s
   \<and> dreams (setActiveTab X s) = dreams s
   \<and> stats (setActiveTab X s) = stats s
   \<and> loading (setActiveTab X s) = loading s
   \<and> newInteraction (setActiveTab X s) = newInteraction s
   \<and> click (Button (SetActiveTab X) False label) s = (setActiveTab X s, [])"
  by (simp add: setActiveTab_def)

section \<open>The empty state of the narratives\<close>

text \<open>
  C9. The list of narratives is rendered on the Narratives tab of the loaded console
  (not loading, active tab \<^verbatim>\<open>narratives\<close>). There, when the narrative list is
  empty, the view shows in its place the text "No narratives yet. Create the first interaction to
  begin the myth." and an enabled button "Create First Narrative", and no narrative
  card; a click on that button is \<^verbatim>\<open>setActiveTab('create')\<close> and nothing else.
\<close>

theorem empty_narratives_tab_shows_empty_state:
  assumes "\<not> loading s" and "activeTab s = ''narratives''" and "narratives s = []"
  shows "shows_node s
           (Element ''p''
              [Text ''No narratives yet. Create the first interaction to begin the myth.''])
         \<and> shows_node s (Button (SetActiveTab ''create'') False [Text ''Create First Narrative''])
         \<and> \<not> shows_node s (NarrativeCard n)
         \<and> click (Button (SetActiveTab ''create'') False [Text ''Create First Narrative'']) s
             = (setActiveTab ''create'' s, [])"
  using assms by (simp add: render_defs)

text \<open>The console after an initial load that returned two empty lists and zero counts.\<close>

theorem empty_narratives_witness:
  "\<not> loading loaded_empty \<and> activeTab loaded_empty = ''narratives''
   \<and> narratives loaded_empty = []
   \<and> shows_node loaded_empty
       (Element ''p''
          [Text ''No narratives yet. Create the first interaction to begin the myth.''])
   \<and> shows_node loaded_empty
       (Button (SetActiveTab ''create'') False [Text ''Create First Narrative''])
   \<and> activeTab (fst (click
         (Button (SetActiveTab ''create'') False [Text ''Create First Narrative''])
         loaded_empty)) = ''create''"
proof -
  have h1: "\<not> loading loaded_empty"
    and h2: "activeTab loaded_empty = ''narratives''"
    and h3: "narratives loaded_empty = []"
    by (simp_all add: loaded_empty_eq initial_console_def)
  show ?thesis
    using h1 h2 h3 empty_narratives_tab_shows_empty_state [OF h1 h2 h3]
    by (simp add: setActiveTab_def)
qed

end
